theory Spec2Isabelle
  imports Main
begin

section \<open>Python strings\<close>

text \<open>
  A Python \<open>str\<close> is a sequence of Unicode code points and \<open>len\<close> counts code points,
  so a string is modelled as a list of code points (natural numbers), not as a list of
  bytes. \<open>str\<close> embeds an ASCII literal.
\<close>

type_synonym pystr = "nat list"

definition str :: "string \<Rightarrow> pystr" where
  "str s = map of_char s"

definition newline :: nat where
  "newline = 10"

text \<open>
  The characters that \<open>str.strip()\<close> removes when called without an argument: the code points
  CPython classifies as whitespace (U+0009..U+000D, U+001C..U+0020, U+0085, U+00A0, U+1680,
  U+2000..U+200A, U+2028, U+2029, U+202F, U+205F, U+3000).
\<close>

definition isspace :: "nat \<Rightarrow> bool" where
  "isspace c \<longleftrightarrow>
     (9 \<le> c \<and> c \<le> 13) \<or> (28 \<le> c \<and> c \<le> 32) \<or> c = 133 \<or> c = 160 \<or> c = 5760 \<or>
     (8192 \<le> c \<and> c \<le> 8202) \<or> c = 8232 \<or> c = 8233 \<or> c = 8239 \<or> c = 8287 \<or> c = 12288"

text \<open>\<open>s.strip()\<close>: the string without its leading and trailing whitespace.\<close>

definition py_strip :: "pystr \<Rightarrow> pystr" where
  "py_strip s = rev (dropWhile isspace (rev (dropWhile isspace s)))"

text \<open>
  \<open>s.split(sep)\<close> for a one-character separator: the pieces between the separators, in
  order; a string without separator gives one piece, the empty string gives \<open>['']\<close>.
  \<open>py_split_from cur s\<close> carries the piece read so far.
\<close>

fun py_split_from :: "nat \<Rightarrow> pystr \<Rightarrow> pystr \<Rightarrow> pystr list" where
  "py_split_from sep cur [] = [cur]"
| "py_split_from sep cur (c # cs) =
     (if c = sep then cur # py_split_from sep [] cs else py_split_from sep (cur @ [c]) cs)"

definition py_split :: "nat \<Rightarrow> pystr \<Rightarrow> pystr list" where
  "py_split sep s = py_split_from sep [] s"

text \<open>\<open>sep.join(xs)\<close> and \<open>s * n\<close>.\<close>

fun py_join :: "pystr \<Rightarrow> pystr list \<Rightarrow> pystr" where
  "py_join sep [] = []"
| "py_join sep [x] = x"
| "py_join sep (x # y # ys) = x @ sep @ py_join sep (y # ys)"

definition py_repeat :: "pystr \<Rightarrow> nat \<Rightarrow> pystr" where
  "py_repeat s n = concat (replicate n s)"

section \<open>The chunker\<close>

text \<open>
  The body of the \<open>for paragraph in text.split("\n")\<close> loop of \<open>chunk_text_for_agent\<close>, as a
  recursion over the lines still to be read, with the two variables \<open>chunks\<close> and \<open>current\<close>
  the loop updates. \<open>max_chunk_chars\<close> is a Python \<open>int\<close>, hence unbounded and possibly
  negative.
\<close>

fun chunk_loop :: "int \<Rightarrow> pystr list \<Rightarrow> pystr list \<Rightarrow> pystr \<Rightarrow> pystr list \<times> pystr" where
  "chunk_loop max_chunk_chars [] chunks current = (chunks, current)"
| "chunk_loop max_chunk_chars (paragraph # rest) chunks current =
     (if int (length current) + int (length paragraph) + 1 \<le> max_chunk_chars
      then chunk_loop max_chunk_chars rest chunks (current @ paragraph @ [newline])
      else chunk_loop max_chunk_chars rest
             (if current \<noteq> [] then chunks @ [py_strip current] else chunks)
             (paragraph @ [newline]))"

definition chunk_text_for_agent :: "pystr \<Rightarrow> int \<Rightarrow> pystr list" where
  "chunk_text_for_agent text max_chunk_chars =
     (case chunk_loop max_chunk_chars (py_split newline text) [] [] of
        (chunks, current) \<Rightarrow> if current \<noteq> [] then chunks @ [py_strip current] else chunks)"


subsection \<open>The loop as the list iterator runs it\<close>

text \<open>
  The same loop, executed the way the interpreter does: the iterator of the list
  \<open>text.split("\n")\<close> holds an index \<open>i\<close>, hands out \<open>lines[i]\<close> while \<open>i < len(lines)\<close> and
  stops otherwise. No operation of the body can raise (string concatenation, \<open>len\<close>, integer
  comparison, \<open>strip\<close>, \<open>list.append\<close>), and the read \<open>lines ! i\<close> is guarded by the
  iterator's own bound, so the only way not to return a list would be not to halt: the value
  \<open>None\<close>.
\<close>

partial_function (option) exec_loop ::
  "int \<Rightarrow> pystr list \<Rightarrow> nat \<Rightarrow> pystr list \<Rightarrow> pystr \<Rightarrow> (pystr list \<times> pystr) option" where
  "exec_loop max_chunk_chars lines i chunks current =
     (if i < length lines
      then (if int (length current) + int (length (lines ! i)) + 1 \<le> max_chunk_chars
            then exec_loop max_chunk_chars lines (i + 1) chunks (current @ lines ! i @ [newline])
            else exec_loop max_chunk_chars lines (i + 1)
                   (if current \<noteq> [] then chunks @ [py_strip current] else chunks)
                   (lines ! i @ [newline]))
      else Some (chunks, current))"

definition exec_chunk_text_for_agent :: "pystr \<Rightarrow> int \<Rightarrow> pystr list option" where
  "exec_chunk_text_for_agent text max_chunk_chars =
     (case exec_loop max_chunk_chars (py_split newline text) 0 [] [] of
        None \<Rightarrow> None
      | Some (chunks, current) \<Rightarrow>
          Some (if current \<noteq> [] then chunks @ [py_strip current] else chunks))"

subsection \<open>The lines behind each chunk\<close>

text \<open>
  Two auxiliary notions for stating what the chunker does to the lines. \<open>accumulated g\<close> is
  the value of \<open>current\<close> after the lines \<open>g\<close> have been put into it, each followed by a line
  break. \<open>pack m ls g\<close> lists, in order, the groups of lines that the loop flushes when it
  reads the lines \<open>ls\<close> with the lines \<open>g\<close> already in \<open>current\<close>.
\<close>

definition accumulated :: "pystr list \<Rightarrow> pystr" where
  "accumulated g = concat (map (\<lambda>l. l @ [newline]) g)"

fun pack :: "int \<Rightarrow> pystr list \<Rightarrow> pystr list \<Rightarrow> pystr list list" where
  "pack m [] g = (if g = [] then [] else [g])"
| "pack m (p # ps) g =
     (if int (length (accumulated g)) + int (length p) + 1 \<le> m
      then pack m ps (g @ [p])
      else (if g = [] then [] else [g]) @ pack m ps [p])"

subsection \<open>The algorithm of the specification\<close>

text \<open>
  The specification's algorithm, each sentence read with the rest of the specification.
  The lines are the pieces of the text between its line breaks, iterated in order with an
  accumulator. A line enters the accumulator with its line break, whether it is appended or
  starts a new accumulator: the specification's \<open>chunk("a\nb\nc", 1200)\<close> is the one chunk
  \<open>"a\nb\nc"\<close>. If appending the line (plus a line break) keeps the accumulator's length
  within the limit, the line is appended; otherwise the accumulator is flushed and a new one
  started with that line. Flushing completes a chunk, trimmed, from what the accumulator
  holds; an accumulator that holds nothing completes none: the specification's
  \<open>chunk("a" * 2000, 1200)\<close> is a single chunk. After all lines the accumulator is flushed,
  if non-empty. The edge case: an empty input text produces an empty sequence.
\<close>

definition reference_flush :: "pystr list \<Rightarrow> pystr \<Rightarrow> pystr list" where
  "reference_flush completed acc = (if acc = [] then completed else completed @ [py_strip acc])"

definition reference_step :: "int \<Rightarrow> pystr list \<times> pystr \<Rightarrow> pystr \<Rightarrow> pystr list \<times> pystr" where
  "reference_step limit st line =
     (case st of (completed, acc) \<Rightarrow>
        if int (length (acc @ line @ [newline])) \<le> limit
        then (completed, acc @ line @ [newline])
        else (reference_flush completed acc, line @ [newline]))"

definition chunk_reference :: "pystr \<Rightarrow> int \<Rightarrow> pystr list" where
  "chunk_reference text limit =
     (if text = [] then []
      else (case foldl (reference_step limit) ([], []) (py_split newline text) of
              (completed, acc) \<Rightarrow> reference_flush completed acc))"

section \<open>The crawler\<close>

text \<open>
  An item of the crawling service's dataset is a dictionary whose keys may be missing;
  \<open>None\<close> is a missing key. The nested dictionaries \<open>metadata\<close> and \<open>crawl\<close> are optional
  as well.
\<close>

record metadata_dict =
  metadata_title :: "pystr option"

record crawl_dict =
  crawl_depth :: "int option"
  crawl_httpStatusCode :: "int option"

record item =
  item_url :: "pystr option"
  item_metadata :: "metadata_dict option"
  item_markdown :: "pystr option"
  item_text :: "pystr option"
  item_crawl :: "crawl_dict option"

text \<open>The dictionary \<open>entry\<close> built for each item, with its nested \<open>metadata\<close>.\<close>

record entry_metadata =
  entry_depth :: "int option"
  entry_status :: "int option"

record entry =
  entry_url :: "pystr option"
  entry_title :: pystr
  entry_text :: pystr
  entry_chunks :: "pystr list"
  entry_metadata :: entry_metadata

text \<open>\<open>d.get(key, dflt)\<close> on an optional value.\<close>

definition py_get :: "'a option \<Rightarrow> 'a \<Rightarrow> 'a" where
  "py_get v dflt = (case v of None \<Rightarrow> dflt | Some x \<Rightarrow> x)"

text \<open>
  The body of the loop over the items. \<open>markdownify\<close> stands for the library call
  \<open>markdownify.markdownify(_, heading_style="ATX")\<close>, which is not part of the repository
  and is taken as a parameter. \<open>not markdown\<close> holds for a missing and for an empty value,
  and \<open>a or b\<close> is \<open>b\<close> when \<open>a\<close> is empty.
\<close>

definition make_entry :: "(pystr \<Rightarrow> pystr) \<Rightarrow> item \<Rightarrow> entry" where
  "make_entry markdownify it =
     (let url = item_url it;
          title = (case item_metadata it of None \<Rightarrow> [] | Some md \<Rightarrow> py_get (metadata_title md) []);
          markdown = (case item_markdown it of
                        None \<Rightarrow> markdownify (py_get (item_text it) [])
                      | Some md \<Rightarrow> if md = [] then markdownify (py_get (item_text it) []) else md);
          text = (if py_get (item_text it) [] \<noteq> [] then py_get (item_text it) [] else markdown)
      in \<lparr>entry_url = url,
          entry_title = title,
          entry_text = text,
          entry_chunks = chunk_text_for_agent text 1200,
          entry_metadata =
            \<lparr>entry_depth = (case item_crawl it of None \<Rightarrow> None | Some c \<Rightarrow> crawl_depth c),
             entry_status = (case item_crawl it of None \<Rightarrow> None | Some c \<Rightarrow> crawl_httpStatusCode c)\<rparr>\<rparr>)"

text \<open>
  The exceptions: the \<open>ValueError\<close> the function raises itself, and whatever the client of
  the external service raises.
\<close>

datatype py_error = ValueError pystr | ServiceError pystr

text \<open>The request handed to the service, with the fields the function fills in.\<close>

record run_input =
  startUrls :: "pystr list"
  maxCrawlPages :: int
  crawlerType :: pystr
  useSitemaps :: bool
  includeUrlGlobs :: "pystr list"
  excludeUrlGlobs :: "pystr list"
  removeElementsCssSelector :: pystr
  useApifyProxy :: bool
  maxRequestRetries :: int
  requestHandlerTimeoutSecs :: int
  headless :: bool
  waitUntil :: pystr

text \<open>
  The external service as the function uses it, a parameter of the model:
  \<open>call_actor token actor input\<close> is \<open>ApifyClient(token).actor(actor).call(run_input=input)\<close>
  and returns the run's \<open>defaultDatasetId\<close>; \<open>list_items token dataset limit\<close> is
  \<open>ApifyClient(token).dataset(dataset).list_items(limit=limit).items\<close>. Either may raise.
\<close>

record apify =
  call_actor :: "pystr \<Rightarrow> pystr \<Rightarrow> run_input \<Rightarrow> py_error + pystr"
  list_items :: "pystr \<Rightarrow> pystr \<Rightarrow> int \<Rightarrow> py_error + item list"

text \<open>\<open>os.getenv(key, dflt)\<close> on an environment, and \<open>xs or dflt\<close> on an optional list.\<close>

definition os_getenv :: "(pystr \<rightharpoonup> pystr) \<Rightarrow> pystr \<Rightarrow> pystr \<Rightarrow> pystr" where
  "os_getenv env key dflt = (case env key of None \<Rightarrow> dflt | Some v \<Rightarrow> v)"

definition or_list :: "'a list option \<Rightarrow> 'a list \<Rightarrow> 'a list" where
  "or_list xs dflt = (case xs of None \<Rightarrow> dflt | Some l \<Rightarrow> if l = [] then dflt else l)"

text \<open>What a successful call leaves behind: the file written and the list returned.\<close>

record crawl_result =
  output_file :: pystr
  file_records :: "entry list"
  returned :: "entry list"

definition crawl_womens_running_shoes ::
  "apify \<Rightarrow> (pystr \<Rightarrow> pystr) \<Rightarrow> (pystr \<rightharpoonup> pystr) \<Rightarrow>
   pystr \<Rightarrow> int \<Rightarrow> pystr list option \<Rightarrow> pystr list option \<Rightarrow> pystr \<Rightarrow> pystr \<Rightarrow>
   py_error + crawl_result" where
  "crawl_womens_running_shoes client markdownify env
     start_url max_pages include_url_globs exclude_url_globs crawler_type output_json =
     (let api_key = os_getenv env (str ''APIFY_API_TOKEN'') (str ''Mask'') in
      if api_key = []
      then Inl (ValueError (str ''Missing APIFY_API_TOKEN environment variable.''))
      else
        (case call_actor client api_key (str ''apify/website-content-crawler'')
                \<lparr>startUrls = [start_url],
                 maxCrawlPages = max_pages,
                 crawlerType = crawler_type,
                 useSitemaps = False,
                 includeUrlGlobs =
                   or_list include_url_globs
                     [str ''/women/'', str ''/running'', str ''/shoe'', str ''/product''],
                 excludeUrlGlobs =
                   or_list exclude_url_globs [str ''/cart'', str ''/login'', str ''/sale''],
                 removeElementsCssSelector = str ''nav, footer, script, style'',
                 useApifyProxy = True,
                 maxRequestRetries = 3,
                 requestHandlerTimeoutSecs = 60,
                 headless = True,
                 waitUntil = str ''networkidle''\<rparr> of
           Inl e \<Rightarrow> Inl e
         | Inr dataset_id \<Rightarrow>
             (case list_items client api_key dataset_id max_pages of
                Inl e \<Rightarrow> Inl e
              | Inr items \<Rightarrow>
                  Inr \<lparr>output_file = output_json,
                       file_records = map (make_entry markdownify) items,
                       returned = map (make_entry markdownify) items\<rparr>)))"

text \<open>
  Two concrete inputs for evaluating the crawler: an item with no key at all, and a service
  that accepts every token and returns an empty dataset.
\<close>

definition bare_item :: item where
  "bare_item = \<lparr>item_url = None, item_metadata = None, item_markdown = None,
                 item_text = None, item_crawl = None\<rparr>"

definition idle_service :: apify where
  "idle_service = \<lparr>call_actor = (\<lambda>token actor input. Inr (str ''dataset'')),
                    list_items = (\<lambda>token dataset limit. Inr [])\<rparr>"

text \<open>A sample text of four lines, the second one longer than a limit of five.\<close>

definition sample_text :: pystr where
  "sample_text = str ''ab'' @ [newline] @ str '' cdefgh '' @ [newline] @ [newline] @ str ''i''"

section \<open>Properties\<close>

subsection \<open>Whitespace trimming\<close>

lemma isspace_newline: "isspace newline"
  by (simp add: isspace_def newline_def)

lemma py_strip_snoc_space: "isspace c \<Longrightarrow> py_strip (x @ [c]) = py_strip x"
proof (cases "\<forall>a \<in> set x. isspace a")
  case True
  assume "isspace c"
  with True have a: "dropWhile isspace (x @ [c]) = []" and b: "dropWhile isspace x = []"
    by simp_all
  show ?thesis unfolding py_strip_def a b by simp
next
  case False
  assume "isspace c"
  from False have "dropWhile isspace (x @ [c]) = dropWhile isspace x @ [c]"
    by auto
  with \<open>isspace c\<close> show ?thesis by (simp add: py_strip_def)
qed

lemma length_py_strip: "length (py_strip s) \<le> length s"
proof -
  have "length (py_strip s) \<le> length (dropWhile isspace s)"
    unfolding py_strip_def using length_dropWhile_le [of isspace "rev (dropWhile isspace s)"]
    by simp
  also have "\<dots> \<le> length s" by (rule length_dropWhile_le)
  finally show ?thesis .
qed

lemma py_strip_id:
  "s = [] \<or> \<not> isspace (hd s) \<and> \<not> isspace (last s) \<Longrightarrow> py_strip s = s"
proof (cases "s = []")
  case True
  then show ?thesis by (simp add: py_strip_def)
next
  case False
  assume "s = [] \<or> \<not> isspace (hd s) \<and> \<not> isspace (last s)"
  with False have h: "\<not> isspace (hd s)" and l: "\<not> isspace (last s)" by auto
  from False h have "dropWhile isspace s = s" by (cases s) auto
  moreover from False l have "dropWhile isspace (rev s) = rev s"
    by (cases "rev s") (auto simp: last_rev [symmetric] hd_rev)
  ultimately show ?thesis by (simp add: py_strip_def)
qed

lemma py_strip_ends:
  "py_strip s = [] \<or> \<not> isspace (hd (py_strip s)) \<and> \<not> isspace (last (py_strip s))"
proof (cases "py_strip s = []")
  case True
  then show ?thesis by simp
next
  case False
  define u where "u = dropWhile isspace s"
  define r where "r = dropWhile isspace (rev u)"
  have v: "py_strip s = rev r" by (simp add: py_strip_def u_def r_def)
  with False have rne: "r \<noteq> []" by simp
  then have "\<not> isspace (hd r)" unfolding r_def by (rule hd_dropWhile)
  with rne have last_ok: "\<not> isspace (last (rev r))" by (simp add: last_rev)
  have "rev u = takeWhile isspace (rev u) @ r" by (simp add: r_def)
  then have "u = rev r @ rev (takeWhile isspace (rev u))"
    by (metis rev_append rev_rev_ident)
  with rne have "hd u = hd (rev r)" and "u \<noteq> []"
    by (metis hd_append2 rev_is_Nil_conv, metis Nil_is_append_conv rev_is_Nil_conv)
  moreover from \<open>u \<noteq> []\<close> have "\<not> isspace (hd u)" unfolding u_def by (rule hd_dropWhile)
  ultimately have "\<not> isspace (hd (rev r))" by simp
  with last_ok v show ?thesis by simp
qed

lemma py_strip_idem: "py_strip (py_strip s) = py_strip s"
  by (rule py_strip_id) (rule py_strip_ends)

subsection \<open>Splitting and joining\<close>

lemma py_split_from_nonempty: "py_split_from sep cur s \<noteq> []"
  by (induction s arbitrary: cur) auto

lemma py_split_nonempty: "py_split sep s \<noteq> []"
  by (simp add: py_split_def py_split_from_nonempty)

lemma py_join_split_from: "py_join [sep] (py_split_from sep cur s) = cur @ s"
proof (induction s arbitrary: cur)
  case Nil
  show ?case by simp
next
  case (Cons c cs)
  show ?case
  proof (cases "c = sep")
    case True
    obtain x xs where "py_split_from sep [] cs = x # xs"
      using py_split_from_nonempty [of sep "[]" cs] by (cases "py_split_from sep [] cs") auto
    with Cons.IH [of "[]"] True show ?thesis by simp
  next
    case False
    with Cons.IH [of "cur @ [c]"] show ?thesis by simp
  qed
qed

lemma py_join_split: "py_join [sep] (py_split sep s) = s"
  by (simp add: py_split_def py_join_split_from)

lemma py_split_from_single: "sep \<notin> set s \<Longrightarrow> py_split_from sep cur s = [cur @ s]"
  by (induction s arbitrary: cur) auto

lemma py_split_single: "sep \<notin> set s \<Longrightarrow> py_split sep s = [s]"
  by (simp add: py_split_def py_split_from_single)

lemma py_repeat_a: "py_repeat (str ''a'') n = replicate n 97"
  by (induction n) (simp_all add: py_repeat_def str_def)

subsection \<open>The accumulator and the groups of lines\<close>

lemma accumulated_Nil: "accumulated [] = []"
  by (simp add: accumulated_def)

lemma accumulated_snoc: "accumulated (g @ [p]) = accumulated g @ p @ [newline]"
  by (simp add: accumulated_def)

lemma accumulated_single: "accumulated [p] = p @ [newline]"
  by (simp add: accumulated_def)

lemma accumulated_eq_Nil: "accumulated g = [] \<longleftrightarrow> g = []"
  by (cases g) (simp_all add: accumulated_def)

lemma accumulated_join: "g \<noteq> [] \<Longrightarrow> accumulated g = py_join [newline] g @ [newline]"
  by (induction "[newline]" g rule: py_join.induct) (simp_all add: accumulated_def)

lemma py_strip_accumulated:
  "g \<noteq> [] \<Longrightarrow> py_strip (accumulated g) = py_strip (py_join [newline] g)"
  by (simp add: accumulated_join py_strip_snoc_space isspace_newline)

lemma length_line_accumulated: "p \<in> set g \<Longrightarrow> length p < length (accumulated g)"
  by (induction g) (auto simp: accumulated_def)

text \<open>The loop, followed by the final flush, emits the trimmed accumulators of the groups.\<close>

lemma loop_pack:
  "(case chunk_loop m ls chunks (accumulated g) of
      (cs, cur) \<Rightarrow> if cur \<noteq> [] then cs @ [py_strip cur] else cs)
   = chunks @ map (\<lambda>h. py_strip (accumulated h)) (pack m ls g)"
proof (induction ls arbitrary: chunks g)
  case Nil
  show ?case by (simp add: accumulated_eq_Nil)
next
  case (Cons p ps)
  show ?case
  proof (cases "int (length (accumulated g)) + int (length p) + 1 \<le> m")
    case True
    then show ?thesis
      using Cons.IH [of chunks "g @ [p]"] by (simp add: accumulated_snoc)
  next
    case False
    then show ?thesis
      using Cons.IH [of "if g = [] then chunks else chunks @ [py_strip (accumulated g)]" "[p]"]
      by (cases "g = []") (simp_all add: accumulated_single accumulated_eq_Nil)
  qed
qed

lemma chunk_text_for_agent_pack:
  "chunk_text_for_agent t m =
   map (\<lambda>h. py_strip (accumulated h)) (pack m (py_split newline t) [])"
  using loop_pack [of m "py_split newline t" "[]" "[]"]
  by (simp add: chunk_text_for_agent_def accumulated_Nil)

lemma concat_pack: "concat (pack m ls g) = g @ ls"
  by (induction ls arbitrary: g) auto

lemma pack_nonempty: "[] \<notin> set (pack m ls g)"
  by (induction ls arbitrary: g) auto

lemma pack_not_Nil: "g \<noteq> [] \<or> ls \<noteq> [] \<Longrightarrow> pack m ls g \<noteq> []"
  by (induction ls arbitrary: g) auto

lemma chunk_text_for_agent_groups:
  "chunk_text_for_agent t m =
   map (\<lambda>g. py_strip (py_join [newline] g)) (pack m (py_split newline t) [])"
proof -
  have "map (\<lambda>h. py_strip (accumulated h)) (pack m (py_split newline t) []) =
        map (\<lambda>g. py_strip (py_join [newline] g)) (pack m (py_split newline t) [])"
  proof (rule map_cong [OF refl])
    fix h assume "h \<in> set (pack m (py_split newline t) [])"
    with pack_nonempty [of m "py_split newline t" "[]"] have "h \<noteq> []" by auto
    then show "py_strip (accumulated h) = py_strip (py_join [newline] h)"
      by (rule py_strip_accumulated)
  qed
  then show ?thesis by (simp add: chunk_text_for_agent_pack)
qed

text \<open>
  A flushed group either fits the limit, line breaks included, or is a single line.
\<close>

lemma pack_bound:
  "g = [] \<or> int (length (accumulated g)) \<le> m \<or> (\<exists>p. g = [p]) \<Longrightarrow>
   h \<in> set (pack m ls g) \<Longrightarrow> int (length (accumulated h)) \<le> m \<or> (\<exists>p. h = [p])"
proof (induction ls arbitrary: g)
  case Nil
  then show ?case by (auto split: if_splits)
next
  case (Cons p ps)
  show ?case
  proof (cases "int (length (accumulated g)) + int (length p) + 1 \<le> m")
    case True
    then have "int (length (accumulated (g @ [p]))) \<le> m"
      by (simp add: accumulated_snoc)
    with Cons.IH [of "g @ [p]"] Cons.prems(2) True show ?thesis by simp
  next
    case False
    with Cons.prems have "h = g \<and> g \<noteq> [] \<or> h \<in> set (pack m ps [p])"
      by (auto split: if_splits)
    then show ?thesis
    proof
      assume "h = g \<and> g \<noteq> []"
      with Cons.prems(1) show ?thesis by auto
    next
      assume "h \<in> set (pack m ps [p])"
      with Cons.IH [of "[p]"] show ?thesis by blast
    qed
  qed
qed

lemma pack_nonpositive:
  "m \<le> 0 \<Longrightarrow> pack m ls g = (if g = [] then [] else [g]) @ map (\<lambda>p. [p]) ls"
  by (induction ls arbitrary: g) auto

lemma chunk_text_for_agent_not_Nil: "chunk_text_for_agent t m \<noteq> []"
  by (simp add: chunk_text_for_agent_pack pack_not_Nil py_split_nonempty)

lemma chunk_single_line:
  "newline \<notin> set t \<Longrightarrow> m < int (length t) \<Longrightarrow> chunk_text_for_agent t m = [py_strip t]"
  by (simp add: chunk_text_for_agent_def py_split_single py_strip_snoc_space isspace_newline)

subsection \<open>The two executions of the loop\<close>

lemma exec_loop_halts:
  "exec_loop m ls i chunks current = Some (chunk_loop m (drop i ls) chunks current)"
proof (induction "length ls - i" arbitrary: i chunks current)
  case 0
  then show ?case by (simp add: exec_loop.simps)
next
  case (Suc n)
  then have i: "i < length ls" and n: "n = length ls - (i + 1)" by simp_all
  from i have d: "drop i ls = ls ! i # drop (i + 1) ls"
    by (simp add: Cons_nth_drop_Suc)
  show ?case
    using i Suc.hyps(1) [OF n]
    by (subst exec_loop.simps) (simp add: d)
qed

lemma exec_chunk_halts: "exec_chunk_text_for_agent t m = Some (chunk_text_for_agent t m)"
  by (simp add: exec_chunk_text_for_agent_def chunk_text_for_agent_def exec_loop_halts
      split: prod.splits)

lemma chunk_loop_foldl:
  "chunk_loop m ls chunks current = foldl (reference_step m) (chunks, current) ls"
  by (induction ls arbitrary: chunks current)
    (simp_all add: reference_step_def reference_flush_def)


section \<open>The claims\<close>

text \<open>
  C1. The claim: for a positive limit, the empty text gives an empty list of chunks. The
  function does not: \<open>"".split("\n")\<close> is \<open>['']\<close>, the loop turns \<open>current\<close> into a line
  break for that one empty line, and the final \<open>if current:\<close>, tested before trimming, flushes
  it. The result has one element, the empty chunk, for every limit.
\<close>

theorem chunk_empty_text_one_empty_chunk: "chunk_text_for_agent [] m = [[]]"
  by (simp add: chunk_text_for_agent_def py_split_def py_strip_def isspace_def newline_def)

text \<open>
  C2. The claim: without the variable \<open>APIFY_API_TOKEN\<close> the function fails with a
  configuration error before it contacts the service. The function reads the variable with
  the default \<open>'Mask'\<close>, so a missing variable behaves exactly like the token \<open>'Mask'\<close>: the
  check \<open>if not api_key\<close> passes and the service is called with that token.
\<close>

theorem crawl_absent_token_uses_placeholder:
  "env (str ''APIFY_API_TOKEN'') = None \<Longrightarrow>
   crawl_womens_running_shoes client markdownify env
     start_url max_pages include_url_globs exclude_url_globs crawler_type output_json =
   crawl_womens_running_shoes client markdownify (env(str ''APIFY_API_TOKEN'' \<mapsto> str ''Mask''))
     start_url max_pages include_url_globs exclude_url_globs crawler_type output_json"
  by (simp add: crawl_womens_running_shoes_def os_getenv_def)

theorem crawl_absent_token_succeeds:
  "Map.empty (str ''APIFY_API_TOKEN'') = (None :: pystr option) \<and>
   crawl_womens_running_shoes idle_service (\<lambda>s. s) Map.empty
     (str ''https://shop.example/women'') 1 None None (str ''cheerio'') (str ''out.json'') =
   Inr \<lparr>output_file = str ''out.json'', file_records = [], returned = []\<rparr>"
  using crawl_absent_token_uses_placeholder [of Map.empty idle_service "\<lambda>s. s"
      "str ''https://shop.example/women''" 1 None None "str ''cheerio''" "str ''out.json''"]
  by (simp add: crawl_womens_running_shoes_def os_getenv_def idle_service_def str_def)

text \<open>The error is raised only when the variable is set to the empty string.\<close>

lemma crawl_empty_token_raises:
  "env (str ''APIFY_API_TOKEN'') = Some [] \<Longrightarrow>
   crawl_womens_running_shoes client markdownify env
     start_url max_pages include_url_globs exclude_url_globs crawler_type output_json =
   Inl (ValueError (str ''Missing APIFY_API_TOKEN environment variable.''))"
  by (simp add: crawl_womens_running_shoes_def os_getenv_def)

text \<open>
  C3. Joining the chunks reproduces the line sequence up to the trimming at flush time: the
  lines of the text fall into consecutive, non-empty groups, in order and with none dropped,
  repeated or moved (the groups concatenated are the lines, and the lines joined by line
  breaks are the text); and the chunks are, group by group, the lines of the group joined
  by line breaks and then trimmed. This holds for every limit.
\<close>

theorem chunks_reproduce_lines:
  "\<exists>groups. concat groups = py_split newline t \<and>
            py_join [newline] (concat groups) = t \<and>
            [] \<notin> set groups \<and>
            chunk_text_for_agent t m = map (\<lambda>g. py_strip (py_join [newline] g)) groups"
proof (intro exI conjI)
  show "concat (pack m (py_split newline t) []) = py_split newline t"
    by (simp add: concat_pack)
  then show "py_join [newline] (concat (pack m (py_split newline t) [])) = t"
    by (simp add: py_join_split)
  show "[] \<notin> set (pack m (py_split newline t) [])"
    by (rule pack_nonempty)
  show "chunk_text_for_agent t m =
        map (\<lambda>g. py_strip (py_join [newline] g)) (pack m (py_split newline t) [])"
    by (rule chunk_text_for_agent_groups)
qed

text \<open>
  C4. Every chunk has at most \<open>m\<close> characters, unless it comes from a group that is a
  single line of more than \<open>m\<close> characters, which is then a chunk of its own (the line,
  trimmed). The groups are those of C3.
\<close>

theorem chunk_length_bound:
  "\<exists>groups. concat groups = py_split newline t \<and>
            chunk_text_for_agent t m = map (\<lambda>g. py_strip (py_join [newline] g)) groups \<and>
            (\<forall>g \<in> set groups.
               int (length (py_strip (py_join [newline] g))) \<le> m \<or>
               (\<exists>p. g = [p] \<and> m < int (length p)))"
proof (intro exI conjI ballI)
  show "concat (pack m (py_split newline t) []) = py_split newline t"
    by (simp add: concat_pack)
  show "chunk_text_for_agent t m =
        map (\<lambda>g. py_strip (py_join [newline] g)) (pack m (py_split newline t) [])"
    by (rule chunk_text_for_agent_groups)
  fix g assume g: "g \<in> set (pack m (py_split newline t) [])"
  then have "g \<noteq> []" using pack_nonempty [of m "py_split newline t" "[]"] by auto
  from pack_bound [OF _ g] have "int (length (accumulated g)) \<le> m \<or> (\<exists>p. g = [p])"
    by simp
  then show "int (length (py_strip (py_join [newline] g))) \<le> m \<or>
             (\<exists>p. g = [p] \<and> m < int (length p))"
  proof
    assume fits: "int (length (accumulated g)) \<le> m"
    have "length (py_strip (py_join [newline] g)) \<le> length (accumulated g)"
      using length_py_strip [of "accumulated g"] \<open>g \<noteq> []\<close>
      by (simp add: py_strip_accumulated)
    with fits show ?thesis by simp
  next
    assume "\<exists>p. g = [p]"
    then obtain p where p: "g = [p]" ..
    show ?thesis
    proof (cases "m < int (length p)")
      case True
      with p show ?thesis by simp
    next
      case False
      with p length_py_strip [of p] show ?thesis by simp
    qed
  qed
qed

theorem chunk_length_bound_sample:
  "py_split newline sample_text = [str ''ab'', str '' cdefgh '', [], str ''i''] \<and>
   chunk_text_for_agent sample_text 5 = [str ''ab'', str ''cdefgh'', str ''i''] \<and>
   int (length (str ''ab'')) \<le> 5 \<and>
   5 < int (length (str '' cdefgh '')) \<and> py_strip (str '' cdefgh '') = str ''cdefgh'' \<and>
   int (length (str ''i'')) \<le> 5"
  using chunk_length_bound [of sample_text 5]
  by (simp add: sample_text_def chunk_text_for_agent_def py_split_def py_strip_def
      isspace_def newline_def str_def)

text \<open>
  C5. The claim: the function is the specification's algorithm, returning the same list for
  every text. It does for every text but the empty one, and for every limit. On the empty
  text the specification's algorithm returns no chunk, and the function returns one empty
  chunk: \<open>"".split("\n")\<close> is one empty line, whose line break the final \<open>if current:\<close>
  takes for content, as in C1.
\<close>

theorem chunk_against_reference:
  "(t \<noteq> [] \<longrightarrow> chunk_text_for_agent t m = chunk_reference t m) \<and>
   chunk_reference [] m = [] \<and>
   chunk_text_for_agent [] m = [[]]"
proof (intro conjI impI)
  assume "t \<noteq> []"
  then show "chunk_text_for_agent t m = chunk_reference t m"
    by (simp add: chunk_text_for_agent_def chunk_reference_def chunk_loop_foldl
        reference_flush_def split: prod.splits)
next
  show "chunk_reference [] m = []"
    by (simp add: chunk_reference_def)
next
  show "chunk_text_for_agent [] m = [[]]"
    by (simp add: chunk_text_for_agent_def py_split_def py_strip_def isspace_def newline_def)
qed

theorem chunk_against_reference_sample:
  "sample_text \<noteq> [] \<and>
   chunk_reference sample_text 5 = [str ''ab'', str ''cdefgh'', str ''i''] \<and>
   chunk_text_for_agent sample_text 5 = [str ''ab'', str ''cdefgh'', str ''i''] \<and>
   chunk_reference [] 5 = [] \<and>
   chunk_text_for_agent [] 5 = [[]]"
  using chunk_against_reference [of sample_text 5]
  by (simp add: sample_text_def chunk_reference_def reference_step_def reference_flush_def
      py_split_def py_strip_def isspace_def newline_def str_def)

text \<open>
  C6. A line longer than the limit is a chunk of its own, whole: in the grouping of C3 a
  line of more than \<open>m\<close> characters is alone in its group, so its chunk is the line, trimmed
  like every chunk and cut nowhere; a text that is one such line gives that one chunk; and
  \<open>"a" * 2000\<close> with the limit 1200 gives exactly one chunk, of length 2000.
\<close>

theorem oversized_line_own_chunk:
  "(\<exists>groups. concat groups = py_split newline t \<and>
             chunk_text_for_agent t m = map (\<lambda>g. py_strip (py_join [newline] g)) groups \<and>
             (\<forall>g \<in> set groups. \<forall>p \<in> set g. m < int (length p) \<longrightarrow> g = [p])) \<and>
   (newline \<notin> set t \<and> m < int (length t) \<longrightarrow> chunk_text_for_agent t m = [py_strip t]) \<and>
   chunk_text_for_agent (py_repeat (str ''a'') 2000) 1200 = [py_repeat (str ''a'') 2000] \<and>
   length (py_repeat (str ''a'') 2000) = 2000"
proof (intro conjI)
  show "\<exists>groups. concat groups = py_split newline t \<and>
          chunk_text_for_agent t m = map (\<lambda>g. py_strip (py_join [newline] g)) groups \<and>
          (\<forall>g \<in> set groups. \<forall>p \<in> set g. m < int (length p) \<longrightarrow> g = [p])"
  proof (intro exI conjI ballI impI)
    show "concat (pack m (py_split newline t) []) = py_split newline t"
      by (simp add: concat_pack)
    show "chunk_text_for_agent t m =
          map (\<lambda>g. py_strip (py_join [newline] g)) (pack m (py_split newline t) [])"
      by (rule chunk_text_for_agent_groups)
    fix g p
    assume g: "g \<in> set (pack m (py_split newline t) [])" and p: "p \<in> set g"
      and long: "m < int (length p)"
    from pack_bound [OF _ g] have "int (length (accumulated g)) \<le> m \<or> (\<exists>q. g = [q])"
      by simp
    moreover from length_line_accumulated [OF p] long
    have "\<not> int (length (accumulated g)) \<le> m" by simp
    ultimately obtain q where "g = [q]" by blast
    with p show "g = [p]" by simp
  qed
  show "newline \<notin> set t \<and> m < int (length t) \<longrightarrow> chunk_text_for_agent t m = [py_strip t]"
    by (simp add: chunk_single_line)
  have "py_strip (replicate 2000 (97::nat)) = replicate 2000 97"
    by (rule py_strip_id) (simp add: isspace_def)
  then show "chunk_text_for_agent (py_repeat (str ''a'') 2000) 1200 = [py_repeat (str ''a'') 2000]"
    by (simp add: py_repeat_a chunk_single_line newline_def)
  show "length (py_repeat (str ''a'') 2000) = 2000"
    by (simp add: py_repeat_a)
qed

theorem oversized_line_own_chunk_sample:
  "newline \<notin> set (str ''abcdef'') \<and> 3 < int (length (str ''abcdef'')) \<and>
   chunk_text_for_agent (str ''abcdef'') 3 = [str ''abcdef'']"
  using oversized_line_own_chunk [of "str ''abcdef''" 3]
  by (simp add: py_strip_def isspace_def newline_def str_def)

text \<open>
  C7. The claim: an item with \<open>text\<close> and without \<open>markdown\<close> keeps its text verbatim, and
  for an item with neither the text-derived fields, text and chunks, are empty. For an item
  with neither key the text is what the markdown conversion makes of the empty string, and
  the chunks are never the empty list: with an empty text they are the one empty chunk of
  C1.
\<close>

theorem make_entry_without_text:
  "item_text it = None \<Longrightarrow> item_markdown it = None \<Longrightarrow>
   entry_text (make_entry markdownify it) = markdownify [] \<and>
   entry_chunks (make_entry markdownify it) = chunk_text_for_agent (markdownify []) 1200 \<and>
   entry_chunks (make_entry markdownify it) \<noteq> []"
  by (simp add: make_entry_def py_get_def Let_def chunk_text_for_agent_not_Nil)

theorem make_entry_bare_item:
  "item_text bare_item = None \<and> item_markdown bare_item = None \<and>
   entry_text (make_entry (\<lambda>s. s) bare_item) = [] \<and>
   entry_chunks (make_entry (\<lambda>s. s) bare_item) = [[]]"
  using make_entry_without_text [of bare_item "\<lambda>s. s"]
  by (simp add: bare_item_def make_entry_def py_get_def Let_def
      chunk_text_for_agent_def py_split_def py_strip_def isspace_def newline_def)

text \<open>The first half of the claim holds: a non-empty text is kept verbatim.\<close>

lemma make_entry_text_verbatim:
  "item_text it = Some s \<Longrightarrow> s \<noteq> [] \<Longrightarrow> entry_text (make_entry markdownify it) = s"
  by (simp add: make_entry_def py_get_def Let_def)

text \<open>
  C8. The function is total: run by the list iterator, the loop halts for every text and every
  limit, positive or not, and the function returns a list, the one the recursive
  definition computes.
\<close>

theorem chunk_text_for_agent_total:
  "\<exists>chunks. exec_chunk_text_for_agent t m = Some chunks \<and> chunks = chunk_text_for_agent t m"
  by (simp add: exec_chunk_halts)

text \<open>
  C9. Every chunk returned, for every text and every limit, is free of leading and trailing
  whitespace: trimming it again changes nothing.
\<close>

theorem chunks_are_stripped: "\<forall>c \<in> set (chunk_text_for_agent t m). py_strip c = c"
  by (auto simp: chunk_text_for_agent_pack py_strip_idem)

theorem chunks_are_stripped_sample:
  "chunk_text_for_agent sample_text 5 = [str ''ab'', str ''cdefgh'', str ''i''] \<and>
   py_strip (str ''ab'') = str ''ab'' \<and> py_strip (str ''cdefgh'') = str ''cdefgh'' \<and>
   py_strip (str ''i'') = str ''i''"
  using chunks_are_stripped [of sample_text 5]
  by (simp add: sample_text_def chunk_text_for_agent_def py_split_def py_strip_def
      isspace_def newline_def str_def)

text \<open>
  C10. With a limit of zero or less the function still halts and returns a list, one chunk per
  line of the text: the lines of \<open>text.split("\n")\<close>, each trimmed.
\<close>

theorem chunk_nonpositive_limit:
  "m \<le> 0 \<Longrightarrow>
   exec_chunk_text_for_agent t m = Some (map py_strip (py_split newline t)) \<and>
   chunk_text_for_agent t m = map py_strip (py_split newline t)"
  by (simp add: exec_chunk_halts chunk_text_for_agent_pack pack_nonpositive
      accumulated_single py_strip_snoc_space isspace_newline comp_def)

theorem chunk_nonpositive_limit_sample:
  "(- 3 :: int) \<le> 0 \<and>
   exec_chunk_text_for_agent sample_text (- 3) =
     Some [str ''ab'', str ''cdefgh'', [], str ''i''] \<and>
   chunk_text_for_agent sample_text (- 3) = [str ''ab'', str ''cdefgh'', [], str ''i'']"
  using chunk_nonpositive_limit [of "- 3" sample_text]
  by (simp add: sample_text_def py_split_def py_strip_def isspace_def newline_def str_def)

end
